theory Spec2Isabelle
  imports Complex_Main "HOL-Library.Monad_Syntax"
begin

section \<open>Squat detector: the data model\<close>

text \<open>
  A shallow embedding of \<^verbatim>\<open>src/backend/squat_detector.py\<close>.

  \<^item> Python floats are modelled as \<^typ>\<open>real\<close>: the angles are exact, every constant
    is the exact value of its double, and every comparison of the state machine is the
    comparison of the source on the measured value.
  \<^item> Python integers are unbounded, so every counter is an \<^typ>\<open>int\<close>.
  \<^item> A landmark is a dictionary from key names to floats. Reading a key that is absent
    raises \<^verbatim>\<open>KeyError\<close> in the source; in the model the read returns \<open>None\<close> and
    \<open>detect_squat\<close> returns \<open>Inl KeyError\<close>.
  \<^item> The detector object is a record, and every method takes the record and returns the
    updated one next to its result.
\<close>

datatype py_error = KeyError

type_synonym landmark = "string \<rightharpoonup> real"

record squat_analysis =
  is_squat_position :: bool
  knee_angle :: real
  hip_angle :: real
  back_angle :: real
  hip_depth :: real
  form_feedback :: string
  checkpoint_results :: "(nat \<times> bool) list"

record squat_detector =
  squat_count :: int
  total_attempts :: int
  correct_squats :: int
  missed_squats :: int
  knee_correct_frames :: int
  hip_correct_frames :: int
  back_correct_frames :: int
  total_frames_in_correct_squats :: int
  current_squat_knee_frames :: int
  current_squat_hip_frames :: int
  current_squat_back_frames :: int
  current_squat_total_frames :: int
  was_standing :: bool
  is_currently_squatting :: bool
  lowest_knee_angle_this_squat :: real
  best_form_this_squat :: bool
  last_squat_analysis :: "squat_analysis option"
  last_squat_was_perfect :: bool
  squat_just_completed :: bool
  frame_count :: int
  last_log_frame :: int

text \<open>
  The four values that \<open>detect_squat\<close> measures on a frame (its local variables
  \<^verbatim>\<open>avg_knee_angle\<close>, \<^verbatim>\<open>avg_hip_angle\<close>, \<^verbatim>\<open>back_lean\<close> and
  \<^verbatim>\<open>hip_depth\<close>; the last one is called \<open>depth_ratio\<close> here, as \<open>hip_depth\<close> is a
  field of the analysis).
\<close>

record pose_angles =
  avg_knee_angle :: real
  avg_hip_angle :: real
  back_lean :: real
  depth_ratio :: real

subsection \<open>Class constants\<close>

text \<open>
  Each constant is the value of the double that its literal denotes, and unfolds to it
  under the simplifier. All the thresholds are whole numbers but one: the literal
  \<^verbatim>\<open>0.85\<close> denotes the double \<open>7656119366529843 / 2^53\<close>, just below 17/20.
\<close>

definition LEFT_SHOULDER :: nat where [simp]: "LEFT_SHOULDER = 11"
definition RIGHT_SHOULDER :: nat where [simp]: "RIGHT_SHOULDER = 12"
definition LEFT_HIP :: nat where [simp]: "LEFT_HIP = 23"
definition RIGHT_HIP :: nat where [simp]: "RIGHT_HIP = 24"
definition LEFT_KNEE :: nat where [simp]: "LEFT_KNEE = 25"
definition RIGHT_KNEE :: nat where [simp]: "RIGHT_KNEE = 26"
definition LEFT_ANKLE :: nat where [simp]: "LEFT_ANKLE = 27"
definition RIGHT_ANKLE :: nat where [simp]: "RIGHT_ANKLE = 28"

definition STANDING_KNEE_THRESHOLD :: real where [simp]: "STANDING_KNEE_THRESHOLD = 130"
definition SQUATTING_KNEE_THRESHOLD :: real where [simp]: "SQUATTING_KNEE_THRESHOLD = 120"
definition KNEE_PERFECT_MIN :: real where [simp]: "KNEE_PERFECT_MIN = 50"
definition KNEE_PERFECT_MAX :: real where [simp]: "KNEE_PERFECT_MAX = 110"
definition HIP_PERFECT_MIN :: real where [simp]: "HIP_PERFECT_MIN = 60"
definition HIP_PERFECT_MAX :: real where [simp]: "HIP_PERFECT_MAX = 120"
definition MIN_HIP_DEPTH_RATIO :: real where [simp]:
  "MIN_HIP_DEPTH_RATIO = 7656119366529843 / 9007199254740992"
definition BACK_LEAN_MIN :: real where [simp]: "BACK_LEAN_MIN = 0"
definition BACK_LEAN_MAX :: real where [simp]: "BACK_LEAN_MAX = 45"

section \<open>Geometry helpers\<close>

text \<open>
  \<^verbatim>\<open>math.atan2\<close> and \<^verbatim>\<open>math.degrees\<close> belong to Python's library, not to the
  repository. Over the reals \<open>atan2 y x\<close> is the principal argument of the point
  \<open>(x, y)\<close>, in \<open>(-\<pi>, \<pi>]\<close>, with \<open>atan2 0 0 = 0\<close>.
\<close>

definition atan2 :: "real \<Rightarrow> real \<Rightarrow> real" where
  "atan2 y x =
     (if 0 < x then arctan (y / x)
      else if x < 0 then (if 0 \<le> y then arctan (y / x) + pi else arctan (y / x) - pi)
      else if 0 < y then pi / 2
      else if y < 0 then - (pi / 2)
      else 0)"

definition degrees :: "real \<Rightarrow> real" where
  "degrees r = r * 180 / pi"

text \<open>\<^verbatim>\<open>_calculate_angle\<close>. The keys are read in the order of the source.\<close>

definition calculate_angle :: "landmark \<Rightarrow> landmark \<Rightarrow> landmark \<Rightarrow> real option" where
  "calculate_angle first_point mid_point last_point = do {
     ly \<leftarrow> last_point ''y'';
     my \<leftarrow> mid_point ''y'';
     lx \<leftarrow> last_point ''x'';
     mx \<leftarrow> mid_point ''x'';
     fy \<leftarrow> first_point ''y'';
     fx \<leftarrow> first_point ''x'';
     let radians = atan2 (ly - my) (lx - mx) - atan2 (fy - my) (fx - mx);
     let angle = degrees radians;
     let angle = (if angle < 0 then angle + 360 else angle);
     let angle = (if angle > 180 then 360 - angle else angle);
     Some angle
   }"

text \<open>\<^verbatim>\<open>_calculate_back_lean\<close>\<close>

definition calculate_back_lean ::
  "landmark \<Rightarrow> landmark \<Rightarrow> landmark \<Rightarrow> landmark \<Rightarrow> real option" where
  "calculate_back_lean left_shoulder right_shoulder left_hip right_hip = do {
     lsx \<leftarrow> left_shoulder ''x'';
     rsx \<leftarrow> right_shoulder ''x'';
     lsy \<leftarrow> left_shoulder ''y'';
     rsy \<leftarrow> right_shoulder ''y'';
     lhx \<leftarrow> left_hip ''x'';
     rhx \<leftarrow> right_hip ''x'';
     lhy \<leftarrow> left_hip ''y'';
     rhy \<leftarrow> right_hip ''y'';
     let shoulder_mid_x = (lsx + rsx) / 2;
     let shoulder_mid_y = (lsy + rsy) / 2;
     let hip_mid_x = (lhx + rhx) / 2;
     let hip_mid_y = (lhy + rhy) / 2;
     let delta_x = shoulder_mid_x - hip_mid_x;
     let delta_y = shoulder_mid_y - hip_mid_y;
     let lean_angle = degrees (atan2 delta_x delta_y);
     Some \<bar>lean_angle\<bar>
   }"

text \<open>\<^verbatim>\<open>_calculate_hip_depth\<close>\<close>

definition calculate_hip_depth ::
  "landmark \<Rightarrow> landmark \<Rightarrow> landmark \<Rightarrow> landmark \<Rightarrow> real option" where
  "calculate_hip_depth left_hip right_hip left_knee right_knee = do {
     lhy \<leftarrow> left_hip ''y'';
     rhy \<leftarrow> right_hip ''y'';
     lky \<leftarrow> left_knee ''y'';
     rky \<leftarrow> right_knee ''y'';
     let hip_y = (lhy + rhy) / 2;
     let knee_y = (lky + rky) / 2;
     if knee_y = 0 then Some 0 else Some (hip_y / knee_y)
   }"

section \<open>Feedback helpers\<close>

text \<open>\<^verbatim>\<open>_generate_checkpoints\<close>: the dictionary literal, in the order it is written.\<close>

definition generate_checkpoints :: "bool \<Rightarrow> bool \<Rightarrow> bool \<Rightarrow> bool \<Rightarrow> (nat \<times> bool) list" where
  "generate_checkpoints shoulders_good hips_good knees_good ankles_good =
     [(LEFT_SHOULDER, \<not> shoulders_good),
      (RIGHT_SHOULDER, \<not> shoulders_good),
      (LEFT_HIP, \<not> hips_good),
      (RIGHT_HIP, \<not> hips_good),
      (LEFT_KNEE, \<not> knees_good),
      (RIGHT_KNEE, \<not> knees_good),
      (LEFT_ANKLE, \<not> ankles_good),
      (RIGHT_ANKLE, \<not> ankles_good)]"

text \<open>Python's \<^verbatim>\<open>sep.join(xs)\<close> on a list of strings.\<close>

fun join :: "string \<Rightarrow> string list \<Rightarrow> string" where
  "join sep [] = []"
| "join sep [x] = x"
| "join sep (x # y # ys) = x @ sep @ join sep (y # ys)"

text \<open>\<^verbatim>\<open>_generate_feedback\<close>\<close>

definition generate_feedback ::
  "bool \<Rightarrow> bool \<Rightarrow> bool \<Rightarrow> bool \<Rightarrow> bool \<Rightarrow> bool \<Rightarrow> string" where
  "generate_feedback is_perfect shoulders_good hips_good knees_good ankles_good is_squatting =
     (if is_perfect \<and> is_squatting then ''Perfect form!''
      else if is_squatting then
        (let issues = [];
             issues = (if \<not> hips_good then issues @ [''Hips''] else issues);
             issues = (if \<not> knees_good then issues @ [''Knees''] else issues);
             issues = (if \<not> ankles_good then issues @ [''Depth''] else issues)
         in if issues \<noteq> [] then ''Fix: '' @ join '', '' (take 2 issues) else ''Keep going'')
      else ''Ready to squat'')"

text \<open>\<^verbatim>\<open>_get_empty_analysis\<close>\<close>

definition get_empty_analysis :: "string \<Rightarrow> squat_analysis" where
  "get_empty_analysis feedback =
     \<lparr>is_squat_position = False, knee_angle = 0, hip_angle = 0, back_angle = 0,
      hip_depth = 0, form_feedback = feedback, checkpoint_results = []\<rparr>"

section \<open>The detector\<close>

text \<open>\<^verbatim>\<open>__init__\<close>\<close>

definition init :: squat_detector where
  "init =
     \<lparr>squat_count = 0, total_attempts = 0, correct_squats = 0, missed_squats = 0,
      knee_correct_frames = 0, hip_correct_frames = 0, back_correct_frames = 0,
      total_frames_in_correct_squats = 0,
      current_squat_knee_frames = 0, current_squat_hip_frames = 0,
      current_squat_back_frames = 0, current_squat_total_frames = 0,
      was_standing = True, is_currently_squatting = False,
      lowest_knee_angle_this_squat = 180, best_form_this_squat = False,
      last_squat_analysis = None, last_squat_was_perfect = False,
      squat_just_completed = False,
      frame_count = 0, last_log_frame = 0\<rparr>"

text \<open>
  The measurements of \<open>detect_squat\<close> (lines 109 to 145): the six angle computations
  in the order of the source. The frame has at least 33 entries when this is called,
  so every index is in range.
\<close>

definition frame_angles :: "landmark list \<Rightarrow> pose_angles option" where
  "frame_angles landmarks = do {
     left_knee_angle \<leftarrow> calculate_angle
       (landmarks ! LEFT_HIP) (landmarks ! LEFT_KNEE) (landmarks ! LEFT_ANKLE);
     right_knee_angle \<leftarrow> calculate_angle
       (landmarks ! RIGHT_HIP) (landmarks ! RIGHT_KNEE) (landmarks ! RIGHT_ANKLE);
     left_hip_angle \<leftarrow> calculate_angle
       (landmarks ! LEFT_SHOULDER) (landmarks ! LEFT_HIP) (landmarks ! LEFT_KNEE);
     right_hip_angle \<leftarrow> calculate_angle
       (landmarks ! RIGHT_SHOULDER) (landmarks ! RIGHT_HIP) (landmarks ! RIGHT_KNEE);
     lean \<leftarrow> calculate_back_lean
       (landmarks ! LEFT_SHOULDER) (landmarks ! RIGHT_SHOULDER)
       (landmarks ! LEFT_HIP) (landmarks ! RIGHT_HIP);
     depth \<leftarrow> calculate_hip_depth
       (landmarks ! LEFT_HIP) (landmarks ! RIGHT_HIP)
       (landmarks ! LEFT_KNEE) (landmarks ! RIGHT_KNEE);
     Some \<lparr>avg_knee_angle = (left_knee_angle + right_knee_angle) / 2,
           avg_hip_angle = (left_hip_angle + right_hip_angle) / 2,
           back_lean = lean,
           depth_ratio = depth\<rparr>
   }"

text \<open>The form checks of lines 165 to 172.\<close>

definition knees_good :: "pose_angles \<Rightarrow> bool" where
  "knees_good m \<longleftrightarrow> KNEE_PERFECT_MIN \<le> avg_knee_angle m \<and> avg_knee_angle m \<le> KNEE_PERFECT_MAX"

definition hips_good :: "pose_angles \<Rightarrow> bool" where
  "hips_good m \<longleftrightarrow> HIP_PERFECT_MIN \<le> avg_hip_angle m \<and> avg_hip_angle m \<le> HIP_PERFECT_MAX"

definition depth_good :: "pose_angles \<Rightarrow> bool" where
  "depth_good m \<longleftrightarrow> depth_ratio m \<ge> MIN_HIP_DEPTH_RATIO"

definition back_good :: "pose_angles \<Rightarrow> bool" where
  "back_good m \<longleftrightarrow> BACK_LEAN_MIN \<le> back_lean m \<and> back_lean m \<le> BACK_LEAN_MAX"

definition lower_body_perfect :: "pose_angles \<Rightarrow> bool" where
  "lower_body_perfect m \<longleftrightarrow> knees_good m \<and> hips_good m \<and> depth_good m"

text \<open>
  Lines 148 to 162: the debug log every 30 frames. Only its effect on the state is kept.
\<close>

definition log_frame :: "squat_detector \<Rightarrow> squat_detector" where
  "log_frame self =
     (if frame_count self - last_log_frame self \<ge> 30
      then self\<lparr>last_log_frame := frame_count self\<rparr> else self)"

text \<open>Lines 175 to 188: the tracking of the repetition in progress.\<close>

definition track_performance :: "pose_angles \<Rightarrow> squat_detector \<Rightarrow> squat_detector" where
  "track_performance m self =
     (if is_currently_squatting self then
        self\<lparr>current_squat_total_frames := current_squat_total_frames self + 1,
             current_squat_knee_frames :=
               (if knees_good m then current_squat_knee_frames self + 1
                else current_squat_knee_frames self),
             current_squat_hip_frames :=
               (if hips_good m \<and> depth_good m then current_squat_hip_frames self + 1
                else current_squat_hip_frames self),
             current_squat_back_frames :=
               (if back_good m then current_squat_back_frames self + 1
                else current_squat_back_frames self),
             lowest_knee_angle_this_squat :=
               (if avg_knee_angle m < lowest_knee_angle_this_squat self then avg_knee_angle m
                else lowest_knee_angle_this_squat self),
             best_form_this_squat :=
               (if lower_body_perfect m then True else best_form_this_squat self)\<rparr>
      else self)"

text \<open>Lines 225 to 243: the evaluation of a repetition that has just completed.\<close>

definition evaluate_completion :: "squat_detector \<Rightarrow> squat_detector" where
  "evaluate_completion self =
     (let sufficient_depth = lowest_knee_angle_this_squat self < 110 in
      if best_form_this_squat self \<and> sufficient_depth then
        self\<lparr>squat_count := squat_count self + 1,
             correct_squats := correct_squats self + 1,
             last_squat_was_perfect := True,
             total_frames_in_correct_squats :=
               total_frames_in_correct_squats self + current_squat_total_frames self,
             knee_correct_frames := knee_correct_frames self + current_squat_knee_frames self,
             hip_correct_frames := hip_correct_frames self + current_squat_hip_frames self,
             back_correct_frames := back_correct_frames self + current_squat_back_frames self\<rparr>
      else
        self\<lparr>missed_squats := missed_squats self + 1,
             last_squat_was_perfect := False\<rparr>)"

text \<open>Lines 191 to 256: the state machine, one branch per branch of the source.\<close>

definition state_machine :: "pose_angles \<Rightarrow> squat_detector \<Rightarrow> squat_detector" where
  "state_machine m self =
     (let is_standing = avg_knee_angle m \<ge> STANDING_KNEE_THRESHOLD;
          is_squatting = avg_knee_angle m < SQUATTING_KNEE_THRESHOLD
      in
      if was_standing self \<and> is_squatting then
        self\<lparr>is_currently_squatting := True,
             was_standing := False,
             lowest_knee_angle_this_squat := avg_knee_angle m,
             best_form_this_squat := False,
             current_squat_total_frames := 0,
             current_squat_knee_frames := 0,
             current_squat_hip_frames := 0,
             current_squat_back_frames := 0\<rparr>
      else if \<not> was_standing self \<and> is_standing \<and> is_currently_squatting self then
        evaluate_completion
          (self\<lparr>is_currently_squatting := False,
                was_standing := True,
                total_attempts := total_attempts self + 1,
                squat_just_completed := True\<rparr>)
      else if is_standing then
        self\<lparr>was_standing := True, is_currently_squatting := False\<rparr>
      else self)"

text \<open>
  Lines 147 to 273: what \<open>detect_squat\<close> does with the measurements of a valid frame.
\<close>

definition process_angles ::
  "pose_angles \<Rightarrow> squat_detector \<Rightarrow> squat_analysis \<times> squat_detector" where
  "process_angles m self =
     (let self = log_frame self;
          is_perfect_form = lower_body_perfect m;
          self = track_performance m self;
          self = state_machine m self;
          checkpoints = generate_checkpoints
            (back_good m) (hips_good m \<and> depth_good m) (knees_good m) (depth_good m);
          feedback = generate_feedback is_perfect_form
            (back_good m) (hips_good m) (knees_good m) (depth_good m)
            (is_currently_squatting self);
          analysis =
            \<lparr>is_squat_position = is_perfect_form,
             knee_angle = avg_knee_angle m,
             hip_angle = avg_hip_angle m,
             back_angle = back_lean m,
             hip_depth = depth_ratio m,
             form_feedback = feedback,
             checkpoint_results = checkpoints\<rparr>
      in (analysis, self\<lparr>last_squat_analysis := Some analysis\<rparr>))"

text \<open>
  \<^verbatim>\<open>detect_squat\<close>. The argument is \<open>None\<close> for Python's \<^verbatim>\<open>None\<close>; an empty list
  is falsy as well. A missing key in one of the landmarks read raises after the frame
  counter has been incremented and before anything else is written.
\<close>

definition detect_squat ::
  "landmark list option \<Rightarrow> squat_detector \<Rightarrow> (py_error + squat_analysis) \<times> squat_detector" where
  "detect_squat landmarks self =
     (let self = self\<lparr>frame_count := frame_count self + 1\<rparr> in
      case landmarks of
        None \<Rightarrow> (Inr (get_empty_analysis ''No pose detected''), self)
      | Some lms \<Rightarrow>
          if lms = [] \<or> length lms < 33 then
            (Inr (get_empty_analysis ''No pose detected''), self)
          else
            (case frame_angles lms of
               None \<Rightarrow> (Inl KeyError, self)
             | Some m \<Rightarrow> (let (analysis, self) = process_angles m self in (Inr analysis, self))))"

text \<open>\<^verbatim>\<open>has_squat_just_completed\<close>\<close>

definition has_squat_just_completed :: "squat_detector \<Rightarrow> bool \<times> squat_detector" where
  "has_squat_just_completed self =
     (let completed = squat_just_completed self;
          self = self\<lparr>squat_just_completed := False\<rparr>
      in (completed, self))"

text \<open>\<^verbatim>\<open>was_last_squat_perfect\<close>\<close>

definition was_last_squat_perfect :: "squat_detector \<Rightarrow> bool \<times> squat_detector" where
  "was_last_squat_perfect self = (last_squat_was_perfect self, self)"

text \<open>Python's \<^verbatim>\<open>str\<close> of an integer, as the f-strings format the count.\<close>

fun str_nat :: "nat \<Rightarrow> string" where
  "str_nat n =
     (if n < 10 then [char_of (48 + n)]
      else str_nat (n div 10) @ [char_of (48 + n mod 10)])"

declare str_nat.simps [simp del]

definition str_int :: "int \<Rightarrow> string" where
  "str_int i = (if i < 0 then CHR ''-'' # str_nat (nat (- i)) else str_nat (nat i))"

text \<open>\<^verbatim>\<open>_determine_bad_squat_feedback\<close>\<close>

definition determine_bad_squat_feedback :: "squat_detector \<Rightarrow> string" where
  "determine_bad_squat_feedback self =
     (case last_squat_analysis self of
        None \<Rightarrow> ''Please adjust your form''
      | Some analysis \<Rightarrow>
          if lowest_knee_angle_this_squat self \<ge> 110 then ''Go deeper. Bend your knees more''
          else if \<not> (KNEE_PERFECT_MIN \<le> knee_angle analysis \<and> knee_angle analysis \<le> KNEE_PERFECT_MAX)
            then ''Please adjust your form. Check your knee position''
          else if \<not> (HIP_PERFECT_MIN \<le> hip_angle analysis \<and> hip_angle analysis \<le> HIP_PERFECT_MAX)
            then ''Please adjust your form. Push your hips back''
          else if hip_depth analysis < MIN_HIP_DEPTH_RATIO
            then ''Please adjust your form. Go deeper''
          else ''Please adjust your form'')"

text \<open>
  \<^verbatim>\<open>get_squat_completion_feedback\<close>. The index that \<^verbatim>\<open>random.choice\<close> draws (one of
  0 to 4) is the argument \<open>choice\<close>.
\<close>

definition get_squat_completion_feedback ::
  "nat \<Rightarrow> bool \<Rightarrow> squat_detector \<Rightarrow> string \<times> squat_detector" where
  "get_squat_completion_feedback choice was_perfect self =
     (if was_perfect then
        (let phrases =
           [''Great job! Perfect squat! '' @ str_int (squat_count self),
            ''Nice form! Keep going! '' @ str_int (squat_count self),
            ''Excellent squat, well done! '' @ str_int (squat_count self),
            ''Perfect! That's '' @ str_int (squat_count self),
            ''Amazing form! '' @ str_int (squat_count self) @ '' squats'']
         in (phrases ! choice, self))
      else (determine_bad_squat_feedback self, self))"

text \<open>
  \<^verbatim>\<open>get_feedback_data\<close>. \<^verbatim>\<open>//\<close> on Python integers is floor division, as \<open>div\<close> on
  \<^typ>\<open>int\<close> is. The dictionary returned is the association list of its literal.
\<close>

definition get_feedback_data :: "squat_detector \<Rightarrow> (string \<times> int) list \<times> squat_detector" where
  "get_feedback_data self =
     (let knee_percentage = 0;
          hip_percentage = 0;
          back_percentage = 0;
          (knee_percentage, hip_percentage, back_percentage) =
            (if total_frames_in_correct_squats self > 0 then
               ((knee_correct_frames self * 100) div total_frames_in_correct_squats self,
                (hip_correct_frames self * 100) div total_frames_in_correct_squats self,
                (back_correct_frames self * 100) div total_frames_in_correct_squats self)
             else (knee_percentage, hip_percentage, back_percentage))
      in ([(''total'', total_attempts self),
           (''correct'', correct_squats self),
           (''missed'', missed_squats self),
           (''kneePercentage'', knee_percentage),
           (''hipPercentage'', hip_percentage),
           (''backPercentage'', back_percentage),
           (''kneeCorrectFrames'', knee_correct_frames self),
           (''hipCorrectFrames'', hip_correct_frames self),
           (''backCorrectFrames'', back_correct_frames self),
           (''totalFramesInCorrectSquats'', total_frames_in_correct_squats self)], self))"

text \<open>\<^verbatim>\<open>reset_squat_count\<close>\<close>

definition reset_squat_count :: "squat_detector \<Rightarrow> squat_detector" where
  "reset_squat_count self =
     self\<lparr>squat_count := 0, total_attempts := 0, correct_squats := 0, missed_squats := 0,
          knee_correct_frames := 0, hip_correct_frames := 0, back_correct_frames := 0,
          total_frames_in_correct_squats := 0,
          current_squat_knee_frames := 0, current_squat_hip_frames := 0,
          current_squat_back_frames := 0, current_squat_total_frames := 0,
          last_squat_analysis := None, last_squat_was_perfect := False,
          squat_just_completed := False,
          was_standing := True, is_currently_squatting := False,
          lowest_knee_angle_this_squat := 180, best_form_this_squat := False,
          frame_count := 0, last_log_frame := 0\<rparr>"

text \<open>\<^verbatim>\<open>get_squat_count\<close>\<close>

definition get_squat_count :: "squat_detector \<Rightarrow> int \<times> squat_detector" where
  "get_squat_count self = (squat_count self, self)"

section \<open>Runs of the detector and the frames used as examples\<close>

text \<open>
  The measurements of a frame that \<open>detect_squat\<close> analyses: \<open>None\<close> for a frame that
  is missing or short, and for one whose landmarks lack a key.
\<close>

definition frame_measures :: "landmark list option \<Rightarrow> pose_angles option" where
  "frame_measures landmarks =
     (case landmarks of
        None \<Rightarrow> None
      | Some lms \<Rightarrow> if length lms < 33 then None else frame_angles lms)"

text \<open>Feeding a list of frames to one detector, in order.\<close>

fun run :: "landmark list option list \<Rightarrow> squat_detector \<Rightarrow> squat_detector" where
  "run [] self = self"
| "run (f # fs) self = run fs (snd (detect_squat f self))"

text \<open>The states one detector instance can be in, after any sequence of method calls.\<close>

inductive reachable :: "squat_detector \<Rightarrow> bool" where
  reach_init: "reachable init"
| reach_detect: "reachable s \<Longrightarrow> reachable (snd (detect_squat f s))"
| reach_completed: "reachable s \<Longrightarrow> reachable (snd (has_squat_just_completed s))"
| reach_perfect: "reachable s \<Longrightarrow> reachable (snd (was_last_squat_perfect s))"
| reach_feedback: "reachable s \<Longrightarrow> reachable (snd (get_squat_completion_feedback c p s))"
| reach_data: "reachable s \<Longrightarrow> reachable (snd (get_feedback_data s))"
| reach_count: "reachable s \<Longrightarrow> reachable (snd (get_squat_count s))"
| reach_reset: "reachable s \<Longrightarrow> reachable (reset_squat_count s)"

text \<open>
  A landmark as the caller builds it, and a frame of 33 landmarks whose left and right
  shoulders, hips, knees and ankles are the four given ones.
\<close>

definition point :: "real \<Rightarrow> real \<Rightarrow> landmark" where
  "point px py = [''x'' \<mapsto> px, ''y'' \<mapsto> py, ''z'' \<mapsto> 0, ''visibility'' \<mapsto> 1]"

definition pose_frame :: "landmark \<Rightarrow> landmark \<Rightarrow> landmark \<Rightarrow> landmark \<Rightarrow> landmark list" where
  "pose_frame shoulder hip knee ankle =
     replicate 11 (point 0 0) @ [shoulder, shoulder] @ replicate 10 (point 0 0)
       @ [hip, hip, knee, knee, ankle, ankle] @ replicate 4 (point 0 0)"

text \<open>Straight legs: knee angle 180.\<close>

definition standing_frame :: "landmark list option" where
  "standing_frame = Some (pose_frame (point 0 0) (point 0 1) (point 0 2) (point 0 3))"

text \<open>Thighs level: knee angle 90, hip angle 90, depth ratio 1.\<close>

definition deep_frame :: "landmark list option" where
  "deep_frame = Some (pose_frame (point 0 0) (point 0 1) (point 1 1) (point 1 2))"

text \<open>Knee angle 90 and hip angle 90 with the hips far above the knees: depth ratio 0.\<close>

definition high_hip_frame :: "landmark list option" where
  "high_hip_frame = Some (pose_frame (point 1 0) (point 0 0) (point 0 1) (point 1 1))"

text \<open>Knee angle 120, the lower end of the band between the two thresholds.\<close>

definition band_frame :: "landmark list option" where
  "band_frame = Some (pose_frame (point 0 0) (point 0 1) (point 0 2) (point (sqrt 3) 3))"

text \<open>
  Knee angle 90 and hip angle 90 with the hips at 0.85 (the double) of the knees' height:
  the depth ratio is the threshold itself.
\<close>

definition threshold_frame :: "landmark list option" where
  "threshold_frame =
     Some (pose_frame (point 1 (7656119366529843 / 9007199254740992))
                      (point 0 (7656119366529843 / 9007199254740992))
                      (point 0 1) (point 1 1))"

text \<open>
  The issue list as the spec words it for C2 (section 4.3): the first check is on
  \<open>hips_good \<and> depth_good\<close>. It is compared with what \<open>detect_squat\<close> reports.
\<close>

definition spec_issues :: "pose_angles \<Rightarrow> string list" where
  "spec_issues m =
     (if \<not> (hips_good m \<and> depth_good m) then [''Hips''] else []) @
     (if \<not> knees_good m then [''Knees''] else []) @
     (if \<not> depth_good m then [''Depth''] else [])"

section \<open>One call of \<open>detect_squat\<close>\<close>


lemma detect_squat_invalid:
  "frame_measures f = None \<Longrightarrow> snd (detect_squat f s) = s\<lparr>frame_count := frame_count s + 1\<rparr>"
  by (auto simp: detect_squat_def frame_measures_def Let_def split: option.splits if_splits)

lemma detect_squat_valid:
  "frame_measures f = Some m \<Longrightarrow>
   detect_squat f s =
     (Inr (fst (process_angles m (s\<lparr>frame_count := frame_count s + 1\<rparr>))),
      snd (process_angles m (s\<lparr>frame_count := frame_count s + 1\<rparr>)))"
  by (auto simp: detect_squat_def frame_measures_def Let_def split: option.splits if_splits prod.splits)

lemma run_append: "run (fs @ gs) s = run gs (run fs s)"
  by (induction fs arbitrary: s) simp_all

text \<open>The frame that starts a repetition.\<close>

lemma start_step:
  assumes "was_standing s" "frame_measures f = Some m" "avg_knee_angle m < 120"
  shows "let s' = snd (detect_squat f s) in
     \<not> was_standing s' \<and> is_currently_squatting s' \<and>
     lowest_knee_angle_this_squat s' = avg_knee_angle m \<and> \<not> best_form_this_squat s' \<and>
     current_squat_total_frames s' = 0 \<and> current_squat_knee_frames s' = 0 \<and>
     current_squat_hip_frames s' = 0 \<and> current_squat_back_frames s' = 0 \<and>
     squat_count s' = squat_count s \<and> total_attempts s' = total_attempts s \<and>
     correct_squats s' = correct_squats s \<and> missed_squats s' = missed_squats s \<and>
     knee_correct_frames s' = knee_correct_frames s \<and> hip_correct_frames s' = hip_correct_frames s \<and>
     back_correct_frames s' = back_correct_frames s \<and>
     total_frames_in_correct_squats s' = total_frames_in_correct_squats s"
  using assms
  by (simp add: detect_squat_valid process_angles_def state_machine_def track_performance_def
      log_frame_def Let_def)

text \<open>A valid frame inside a repetition that does not reach the standing threshold.\<close>

lemma inside_step:
  assumes "\<not> was_standing s" "is_currently_squatting s" "frame_measures f = Some m" "avg_knee_angle m < 130"
  shows "let s' = snd (detect_squat f s) in
     \<not> was_standing s' \<and> is_currently_squatting s' \<and>
     lowest_knee_angle_this_squat s' = min (lowest_knee_angle_this_squat s) (avg_knee_angle m) \<and>
     best_form_this_squat s' = (best_form_this_squat s \<or> lower_body_perfect m) \<and>
     current_squat_total_frames s' = current_squat_total_frames s + 1 \<and>
     current_squat_knee_frames s' = current_squat_knee_frames s + (if knees_good m then 1 else 0) \<and>
     current_squat_hip_frames s' = current_squat_hip_frames s + (if hips_good m \<and> depth_good m then 1 else 0) \<and>
     current_squat_back_frames s' = current_squat_back_frames s + (if back_good m then 1 else 0) \<and>
     squat_count s' = squat_count s \<and> total_attempts s' = total_attempts s \<and>
     correct_squats s' = correct_squats s \<and> missed_squats s' = missed_squats s \<and>
     knee_correct_frames s' = knee_correct_frames s \<and> hip_correct_frames s' = hip_correct_frames s \<and>
     back_correct_frames s' = back_correct_frames s \<and>
     total_frames_in_correct_squats s' = total_frames_in_correct_squats s"
  using assms
  by (simp add: detect_squat_valid process_angles_def state_machine_def track_performance_def
      log_frame_def Let_def min_def)

text \<open>Any number of frames inside a repetition, valid or not, none reaching the standing threshold.\<close>

lemma inside_run:
  assumes "\<not> was_standing s" "is_currently_squatting s"
      and "\<forall>f \<in> set fs. \<forall>m. frame_measures f = Some m \<longrightarrow> avg_knee_angle m < 130"
  shows "let s' = run fs s; ms = List.map_filter frame_measures fs in
     \<not> was_standing s' \<and> is_currently_squatting s' \<and>
     lowest_knee_angle_this_squat s' = Min (insert (lowest_knee_angle_this_squat s) (avg_knee_angle ` set ms)) \<and>
     best_form_this_squat s' = (best_form_this_squat s \<or> (\<exists>m \<in> set ms. lower_body_perfect m)) \<and>
     current_squat_total_frames s' = current_squat_total_frames s + int (length ms) \<and>
     current_squat_knee_frames s' = current_squat_knee_frames s + int (length (filter knees_good ms)) \<and>
     current_squat_hip_frames s' = current_squat_hip_frames s + int (length (filter (\<lambda>m. hips_good m \<and> depth_good m) ms)) \<and>
     current_squat_back_frames s' = current_squat_back_frames s + int (length (filter back_good ms)) \<and>
     squat_count s' = squat_count s \<and> total_attempts s' = total_attempts s \<and>
     correct_squats s' = correct_squats s \<and> missed_squats s' = missed_squats s \<and>
     knee_correct_frames s' = knee_correct_frames s \<and> hip_correct_frames s' = hip_correct_frames s \<and>
     back_correct_frames s' = back_correct_frames s \<and>
     total_frames_in_correct_squats s' = total_frames_in_correct_squats s"
  using assms
proof (induction fs arbitrary: s)
  case Nil
  then show ?case by simp
next
  case (Cons f fs)
  show ?case
  proof (cases "frame_measures f")
    case None
    let ?s1 = "s\<lparr>frame_count := frame_count s + 1\<rparr>"
    have s1: "snd (detect_squat f s) = ?s1" by (rule detect_squat_invalid [OF None])
    have "\<not> was_standing ?s1" "is_currently_squatting ?s1" using Cons.prems by simp_all
    from Cons.IH [OF this] Cons.prems(3) None s1 show ?thesis
      by (simp add: Let_def)
  next
    case (Some m)
    let ?s1 = "snd (detect_squat f s)"
    have k: "avg_knee_angle m < 130" using Cons.prems(3) Some by simp
    note st = inside_step [OF Cons.prems(1,2) Some k, unfolded Let_def]
    have "\<not> was_standing ?s1" "is_currently_squatting ?s1" using st by simp_all
    from Cons.IH [OF this] Cons.prems(3) have ih: "let s' = run fs ?s1; ms = List.map_filter frame_measures fs in
     \<not> was_standing s' \<and> is_currently_squatting s' \<and>
     lowest_knee_angle_this_squat s' = Min (insert (lowest_knee_angle_this_squat ?s1) (avg_knee_angle ` set ms)) \<and>
     best_form_this_squat s' = (best_form_this_squat ?s1 \<or> (\<exists>m \<in> set ms. lower_body_perfect m)) \<and>
     current_squat_total_frames s' = current_squat_total_frames ?s1 + int (length ms) \<and>
     current_squat_knee_frames s' = current_squat_knee_frames ?s1 + int (length (filter knees_good ms)) \<and>
     current_squat_hip_frames s' = current_squat_hip_frames ?s1 + int (length (filter (\<lambda>m. hips_good m \<and> depth_good m) ms)) \<and>
     current_squat_back_frames s' = current_squat_back_frames ?s1 + int (length (filter back_good ms)) \<and>
     squat_count s' = squat_count ?s1 \<and> total_attempts s' = total_attempts ?s1 \<and>
     correct_squats s' = correct_squats ?s1 \<and> missed_squats s' = missed_squats ?s1 \<and>
     knee_correct_frames s' = knee_correct_frames ?s1 \<and> hip_correct_frames s' = hip_correct_frames ?s1 \<and>
     back_correct_frames s' = back_correct_frames ?s1 \<and>
     total_frames_in_correct_squats s' = total_frames_in_correct_squats ?s1" by simp
    have mn: "Min (insert (min a b) (g ` set xs)) = Min (insert a (insert b (g ` set xs)))" for a b :: real and g and xs :: "pose_angles list"
      by (cases "xs = []") (simp_all add: min.assoc)
    show ?thesis using ih st
      by (simp add: Let_def Some mn insert_commute)
  qed
qed


lemma snd_process_angles:
  "snd (process_angles m s) =
     (state_machine m (track_performance m (log_frame s)))
       \<lparr>last_squat_analysis := Some (fst (process_angles m s))\<rparr>"
  by (simp add: process_angles_def Let_def)

text \<open>The frame that completes a repetition.\<close>

lemma complete_step:
  assumes "\<not> was_standing s" "is_currently_squatting s" "frame_measures f = Some m" "130 \<le> avg_knee_angle m"
  shows "let s' = snd (detect_squat f s);
             perfect = (best_form_this_squat s \<and> lowest_knee_angle_this_squat s < 110) in
     was_standing s' \<and> \<not> is_currently_squatting s' \<and> squat_just_completed s' \<and>
     total_attempts s' = total_attempts s + 1 \<and>
     last_squat_was_perfect s' = perfect \<and>
     squat_count s' = squat_count s + (if perfect then 1 else 0) \<and>
     correct_squats s' = correct_squats s + (if perfect then 1 else 0) \<and>
     missed_squats s' = missed_squats s + (if perfect then 0 else 1) \<and>
     current_squat_total_frames s' = current_squat_total_frames s + 1 \<and>
     current_squat_knee_frames s' = current_squat_knee_frames s \<and>
     current_squat_hip_frames s' = current_squat_hip_frames s + (if hips_good m \<and> depth_good m then 1 else 0) \<and>
     current_squat_back_frames s' = current_squat_back_frames s + (if back_good m then 1 else 0) \<and>
     total_frames_in_correct_squats s' =
       total_frames_in_correct_squats s + (if perfect then current_squat_total_frames s' else 0) \<and>
     knee_correct_frames s' = knee_correct_frames s + (if perfect then current_squat_knee_frames s' else 0) \<and>
     hip_correct_frames s' = hip_correct_frames s + (if perfect then current_squat_hip_frames s' else 0) \<and>
     back_correct_frames s' = back_correct_frames s + (if perfect then current_squat_back_frames s' else 0)"
proof -
  define t where "t = track_performance m (log_frame (s\<lparr>frame_count := frame_count s + 1\<rparr>))"
  have ng: "\<not> knees_good m" "\<not> lower_body_perfect m"
    using assms(4) by (simp_all add: lower_body_perfect_def knees_good_def)
  have flags: "\<not> was_standing t" "is_currently_squatting t"
    and form: "best_form_this_squat t = best_form_this_squat s"
      "lowest_knee_angle_this_squat t < 110 \<longleftrightarrow> lowest_knee_angle_this_squat s < 110"
    and cur: "current_squat_total_frames t = current_squat_total_frames s + 1"
      "current_squat_knee_frames t = current_squat_knee_frames s"
      "current_squat_hip_frames t =
         current_squat_hip_frames s + (if hips_good m \<and> depth_good m then 1 else 0)"
      "current_squat_back_frames t = current_squat_back_frames s + (if back_good m then 1 else 0)"
    and life: "squat_count t = squat_count s" "total_attempts t = total_attempts s"
      "correct_squats t = correct_squats s" "missed_squats t = missed_squats s"
      "total_frames_in_correct_squats t = total_frames_in_correct_squats s"
      "knee_correct_frames t = knee_correct_frames s"
      "hip_correct_frames t = hip_correct_frames s"
      "back_correct_frames t = back_correct_frames s"
    using assms(1,2,4) ng by (simp_all add: t_def track_performance_def log_frame_def)
  have sm: "state_machine m t =
      evaluate_completion (t\<lparr>is_currently_squatting := False, was_standing := True,
        total_attempts := total_attempts t + 1, squat_just_completed := True\<rparr>)"
    using flags assms(4) by (simp add: state_machine_def)
  have "snd (detect_squat f s) =
      (state_machine m t)
       \<lparr>last_squat_analysis :=
          Some (fst (process_angles m (s\<lparr>frame_count := frame_count s + 1\<rparr>)))\<rparr>"
    by (simp add: detect_squat_valid [OF assms(3)] snd_process_angles t_def)
  then have s': "snd (detect_squat f s) =
      (evaluate_completion (t\<lparr>is_currently_squatting := False, was_standing := True,
        total_attempts := total_attempts t + 1, squat_just_completed := True\<rparr>))
       \<lparr>last_squat_analysis :=
          Some (fst (process_angles m (s\<lparr>frame_count := frame_count s + 1\<rparr>)))\<rparr>"
    by (simp only: sm)
  show ?thesis
    unfolding Let_def s'
    by (simp add: evaluate_completion_def flags form cur life)
qed

text \<open>A valid frame that does not complete a repetition.\<close>

lemma other_step:
  assumes "frame_measures f = Some m"
      and "\<not> (\<not> was_standing s \<and> is_currently_squatting s \<and> 130 \<le> avg_knee_angle m)"
  shows "let s' = snd (detect_squat f s) in
     squat_count s' = squat_count s \<and> total_attempts s' = total_attempts s \<and>
     correct_squats s' = correct_squats s \<and> missed_squats s' = missed_squats s \<and>
     knee_correct_frames s' = knee_correct_frames s \<and> hip_correct_frames s' = hip_correct_frames s \<and>
     back_correct_frames s' = back_correct_frames s \<and>
     total_frames_in_correct_squats s' = total_frames_in_correct_squats s \<and>
     squat_just_completed s' = squat_just_completed s \<and>
     last_squat_was_perfect s' = last_squat_was_perfect s"
proof -
  define t where "t = track_performance m (log_frame (s\<lparr>frame_count := frame_count s + 1\<rparr>))"
  have flags: "was_standing t = was_standing s" "is_currently_squatting t = is_currently_squatting s"
    and life: "squat_count t = squat_count s" "total_attempts t = total_attempts s"
      "correct_squats t = correct_squats s" "missed_squats t = missed_squats s"
      "total_frames_in_correct_squats t = total_frames_in_correct_squats s"
      "knee_correct_frames t = knee_correct_frames s"
      "hip_correct_frames t = hip_correct_frames s"
      "back_correct_frames t = back_correct_frames s"
      "squat_just_completed t = squat_just_completed s"
      "last_squat_was_perfect t = last_squat_was_perfect s"
    by (simp_all add: t_def track_performance_def log_frame_def)
  have s': "snd (detect_squat f s) =
      (state_machine m t)
       \<lparr>last_squat_analysis :=
          Some (fst (process_angles m (s\<lparr>frame_count := frame_count s + 1\<rparr>)))\<rparr>"
    by (simp add: detect_squat_valid [OF assms(1)] snd_process_angles t_def)
  show ?thesis
    unfolding Let_def s' using assms(2) flags
    by (auto simp add: state_machine_def life Let_def)
qed
section \<open>The example frames, measured\<close>

lemma pose_frame_nth:
  "pose_frame s h k a ! 11 = s" "pose_frame s h k a ! 12 = s"
  "pose_frame s h k a ! 23 = h" "pose_frame s h k a ! 24 = h"
  "pose_frame s h k a ! 25 = k" "pose_frame s h k a ! 26 = k"
  "pose_frame s h k a ! 27 = a" "pose_frame s h k a ! 28 = a"
  by (simp_all add: pose_frame_def nth_append)

lemma length_pose_frame: "length (pose_frame s h k a) = 33"
  by (simp add: pose_frame_def)

lemma point_xy: "point px py ''x'' = Some px" "point px py ''y'' = Some py"
  by (simp_all add: point_def)

lemma calculate_angle_point:
  "calculate_angle (point ax ay) (point vx vy) (point cx cy) =
     Some (let angle = degrees (atan2 (cy - vy) (cx - vx) - atan2 (ay - vy) (ax - vx));
               angle = (if angle < 0 then angle + 360 else angle)
           in if angle > 180 then 360 - angle else angle)"
  by (simp add: calculate_angle_def point_xy Let_def)

lemma arctan_inv_sqrt3: "arctan (1 / sqrt 3) = pi / 6"
  by (rule arctan_unique) (simp_all add: tan_30)

lemma atan2_axis:
  "atan2 0 1 = 0" "atan2 1 0 = pi / 2" "atan2 (-1) 0 = - (pi / 2)" "atan2 0 (-1) = pi"
  "atan2 1 (sqrt 3) = pi / 6"
  by (simp_all add: atan2_def arctan_inv_sqrt3)

lemmas frame_eval = frame_measures_def length_pose_frame frame_angles_def pose_frame_nth
      calculate_angle_point calculate_back_lean_def calculate_hip_depth_def point_xy atan2_axis degrees_def Let_def

lemma frame_measures_standing:
  "frame_measures standing_frame = Some \<lparr>avg_knee_angle = 180, avg_hip_angle = 180, back_lean = 180, depth_ratio = 1/2\<rparr>"
  by (simp add: standing_frame_def frame_eval)

lemma frame_measures_deep:
  "frame_measures deep_frame = Some \<lparr>avg_knee_angle = 90, avg_hip_angle = 90, back_lean = 180, depth_ratio = 1\<rparr>"
  by (simp add: deep_frame_def frame_eval)

lemma frame_measures_high_hip:
  "frame_measures high_hip_frame = Some \<lparr>avg_knee_angle = 90, avg_hip_angle = 90, back_lean = 90, depth_ratio = 0\<rparr>"
  by (simp add: high_hip_frame_def frame_eval)

lemma frame_measures_band:
  "frame_measures band_frame = Some \<lparr>avg_knee_angle = 120, avg_hip_angle = 180, back_lean = 180, depth_ratio = 1/2\<rparr>"
  by (simp add: band_frame_def frame_eval)

lemma frame_measures_threshold:
  "frame_measures threshold_frame =
     Some \<lparr>avg_knee_angle = 90, avg_hip_angle = 90, back_lean = 90,
           depth_ratio = 7656119366529843 / 9007199254740992\<rparr>"
  by (simp add: threshold_frame_def frame_eval atan2_def)

text \<open>The definitions that evaluate one call on a concrete frame.\<close>

lemmas step_eval = detect_squat_valid process_angles_def state_machine_def track_performance_def
  evaluate_completion_def log_frame_def lower_body_perfect_def knees_good_def hips_good_def
  depth_good_def back_good_def generate_feedback_def generate_checkpoints_def Let_def

text \<open>
  At the threshold the depth check passes, as \<^verbatim>\<open>hip_depth >= 0.85\<close> does on the double.
\<close>

lemma threshold_frame_perfect_form:
  "fst (detect_squat threshold_frame (run [deep_frame] init)) =
     Inr \<lparr>is_squat_position = True, knee_angle = 90, hip_angle = 90, back_angle = 90,
          hip_depth = 7656119366529843 / 9007199254740992, form_feedback = ''Perfect form!'',
          checkpoint_results = [(11, True), (12, True), (23, False), (24, False),
            (25, False), (26, False), (27, False), (28, False)]\<rparr>"
  by (simp add: frame_measures_deep frame_measures_threshold step_eval init_def)

section \<open>Invariants of a call and the other methods\<close>

lemma flags_step:
  "\<not> (was_standing s \<and> is_currently_squatting s) \<Longrightarrow>
   \<not> (was_standing (snd (detect_squat f s)) \<and> is_currently_squatting (snd (detect_squat f s)))"
  by (auto simp: detect_squat_def process_angles_def state_machine_def track_performance_def
      log_frame_def evaluate_completion_def Let_def split: option.splits if_splits prod.splits)

lemma other_methods:
  "snd (has_squat_just_completed s) = s\<lparr>squat_just_completed := False\<rparr>"
  "snd (was_last_squat_perfect s) = s"
  "snd (get_squat_completion_feedback c p s) = s"
  "snd (get_feedback_data s) = s"
  "snd (get_squat_count s) = s"
  by (simp_all add: has_squat_just_completed_def was_last_squat_perfect_def
      get_squat_completion_feedback_def get_feedback_data_def get_squat_count_def Let_def)

lemma counts_step:
  assumes "total_attempts s = correct_squats s + missed_squats s" "squat_count s = correct_squats s"
  shows "total_attempts (snd (detect_squat f s)) =
           correct_squats (snd (detect_squat f s)) + missed_squats (snd (detect_squat f s)) \<and>
         squat_count (snd (detect_squat f s)) = correct_squats (snd (detect_squat f s))"
proof (cases "frame_measures f")
  case None
  then show ?thesis using assms by (simp add: detect_squat_invalid)
next
  case (Some m)
  show ?thesis
  proof (cases "\<not> was_standing s \<and> is_currently_squatting s \<and> 130 \<le> avg_knee_angle m")
    case True
    then have c: "\<not> was_standing s" "is_currently_squatting s" "130 \<le> avg_knee_angle m"
      by simp_all
    show ?thesis
      using complete_step [OF c(1,2) Some c(3), unfolded Let_def] assms by simp
  next
    case False
    show ?thesis
      using other_step [OF Some False, unfolded Let_def] assms by simp
  qed
qed

text \<open>The frame totals are never negative.\<close>

lemma current_total_step:
  "0 \<le> current_squat_total_frames s \<Longrightarrow>
   0 \<le> current_squat_total_frames (snd (detect_squat f s))"
  by (auto simp: detect_squat_def process_angles_def state_machine_def track_performance_def
      log_frame_def evaluate_completion_def Let_def split: option.splits if_splits prod.splits)

lemma frames_nonneg_step:
  assumes "0 \<le> current_squat_total_frames s" "0 \<le> total_frames_in_correct_squats s"
  shows "0 \<le> total_frames_in_correct_squats (snd (detect_squat f s))"
proof (cases "frame_measures f")
  case None
  then show ?thesis using assms by (simp add: detect_squat_invalid)
next
  case (Some m)
  show ?thesis
  proof (cases "\<not> was_standing s \<and> is_currently_squatting s \<and> 130 \<le> avg_knee_angle m")
    case True
    then have c: "\<not> was_standing s" "is_currently_squatting s" "130 \<le> avg_knee_angle m"
      by simp_all
    show ?thesis
      using complete_step [OF c(1,2) Some c(3), unfolded Let_def] assms by simp
  next
    case False
    show ?thesis
      using other_step [OF Some False, unfolded Let_def] assms by simp
  qed
qed

lemma reachable_frames_nonneg:
  assumes "reachable s"
  shows "0 \<le> total_frames_in_correct_squats s"
proof -
  have "0 \<le> current_squat_total_frames s \<and> 0 \<le> total_frames_in_correct_squats s"
    using assms
  proof (induction rule: reachable.induct)
    case (reach_detect s f)
    then show ?case using current_total_step [of s f] frames_nonneg_step [of s f] by simp
  qed (simp_all add: other_methods init_def reset_squat_count_def)
  then show ?thesis by simp
qed

lemma band_step:
  assumes "frame_measures f = Some m" "120 \<le> avg_knee_angle m" "avg_knee_angle m < 130"
  shows "was_standing (snd (detect_squat f s)) = was_standing s \<and>
         is_currently_squatting (snd (detect_squat f s)) = is_currently_squatting s"
  using assms
  by (simp add: detect_squat_valid snd_process_angles state_machine_def track_performance_def
      log_frame_def Let_def)

lemma fst_process_angles:
  "form_feedback (fst (process_angles m s)) =
     generate_feedback (lower_body_perfect m) (back_good m) (hips_good m) (knees_good m)
       (depth_good m) (is_currently_squatting (snd (process_angles m s)))"
  by (simp add: process_angles_def Let_def)

section \<open>Facts about \<open>atan2\<close>\<close>

lemma atan2_range: "- pi < atan2 y x \<and> atan2 y x \<le> pi"
proof -
  have b: "- (pi / 2) < arctan (y / x)" "arctan (y / x) < pi / 2"
    by (rule arctan_lbound, rule arctan_ubound)
  have n: "arctan (y / x) \<le> 0" if "x < 0" "0 \<le> y"
    using that by (simp add: divide_nonneg_neg)
  have p: "0 < arctan (y / x)" if "x < 0" "y < 0"
    using that by (simp add: divide_neg_neg)
  show ?thesis
    using b n p pi_gt_zero by (auto simp add: atan2_def)
qed

lemma atan2_scale: "0 < t \<Longrightarrow> atan2 (t * y) (t * x) = atan2 y x"
  by (simp add: atan2_def zero_less_mult_iff mult_less_0_iff zero_le_mult_iff)

lemma atan2_opposite:
  assumes "x \<noteq> 0 \<or> y \<noteq> 0"
  shows "\<bar>atan2 y x - atan2 (- y) (- x)\<bar> = pi"
  using assms by (auto simp add: atan2_def)

lemma degrees_bounds:
  assumes "- (2 * pi) < r" "r < 2 * pi"
  shows "- 360 < degrees r" "degrees r < 360"
  using assms pi_gt_zero by (simp_all add: degrees_def field_simps)

section \<open>The claims\<close>

subsection \<open>C1: the classification of a completed repetition\<close>

text \<open>
  C1, as the spec states it, counts every frame of the repetition for the form
  criterion. The frame on which the repetition starts is a frame of the repetition (its
  knee angle enters the minimum), yet the tracking of lines 175 to 188 runs before the
  start transition and the transition clears \<open>best_form_this_squat\<close>: the form of the
  start frame is never recorded. Here the only frame in perfect lower-body form (knee 90,
  hip 90, depth ratio 1) is the start frame, the minimum knee angle is 90, and the
  repetition is classified imperfect.
\<close>

theorem start_frame_form_not_recorded:
  "frame_measures deep_frame =
     Some \<lparr>avg_knee_angle = 90, avg_hip_angle = 90, back_lean = 180, depth_ratio = 1\<rparr> \<and>
   lower_body_perfect \<lparr>avg_knee_angle = 90, avg_hip_angle = 90, back_lean = 180, depth_ratio = 1\<rparr> \<and>
   squat_just_completed (run [deep_frame, standing_frame] init) \<and>
   total_attempts (run [deep_frame, standing_frame] init) = 1 \<and>
   correct_squats (run [deep_frame, standing_frame] init) = 0 \<and>
   missed_squats (run [deep_frame, standing_frame] init) = 1 \<and>
   \<not> last_squat_was_perfect (run [deep_frame, standing_frame] init)"
  by (simp add: frame_measures_deep frame_measures_standing step_eval init_def)

text \<open>
  C1, amended. A repetition is a start frame \<open>f0\<close> (valid, knee angle below 120, fed to
  a detector that was standing), then any frames \<open>fs\<close> that do not complete it (invalid
  ones, and valid ones with a knee angle below 130), then a valid frame \<open>fc\<close> with a
  knee angle of at least 130. The run raises the completion flag and increments
  \<open>total_attempts\<close> by exactly 1. The repetition is classified perfect if and only if
  (a) at least one valid frame after the start frame had knee angle in [50, 110], hip
  angle in [60, 120] and depth ratio at least 0.85 (the double) at once, and (b) the minimum knee
  angle over the start frame and the valid frames after it was below 110. A perfect
  repetition increments \<open>correct_squats\<close> by exactly 1 and leaves \<open>missed_squats\<close>;
  any other increments \<open>missed_squats\<close> by exactly 1 and leaves \<open>correct_squats\<close>.
\<close>

theorem perfect_classification:
  assumes "was_standing s0"
      and "frame_measures f0 = Some m0" and "avg_knee_angle m0 < 120"
      and "\<forall>f \<in> set fs. \<forall>m. frame_measures f = Some m \<longrightarrow> avg_knee_angle m < 130"
      and "frame_measures fc = Some mc" and "130 \<le> avg_knee_angle mc"
  shows "let s' = run (f0 # fs @ [fc]) s0;
             ms = List.map_filter frame_measures fs;
             perfect = ((\<exists>m \<in> set ms. lower_body_perfect m) \<and>
                        Min (avg_knee_angle ` set (m0 # ms)) < 110)
         in squat_just_completed s' \<and>
            total_attempts s' = total_attempts s0 + 1 \<and>
            last_squat_was_perfect s' = perfect \<and>
            (perfect \<longrightarrow> correct_squats s' = correct_squats s0 + 1 \<and>
                         missed_squats s' = missed_squats s0) \<and>
            (\<not> perfect \<longrightarrow> missed_squats s' = missed_squats s0 + 1 \<and>
                           correct_squats s' = correct_squats s0)"
proof -
  define s1 where "s1 = snd (detect_squat f0 s0)"
  define s2 where "s2 = run fs s1"
  define s3 where "s3 = snd (detect_squat fc s2)"
  define ms where "ms = List.map_filter frame_measures fs"
  note a = start_step [OF assms(1,2,3), unfolded Let_def, folded s1_def]
  have 1: "\<not> was_standing s1" "is_currently_squatting s1" using a by simp_all
  note b = inside_run [OF 1 assms(4), unfolded Let_def, folded s2_def ms_def]
  have 2: "\<not> was_standing s2" "is_currently_squatting s2" using b by simp_all
  note c = complete_step [OF 2 assms(5,6), unfolded Let_def, folded s3_def]
  have r: "run (f0 # fs @ [fc]) s0 = s3"
    by (simp add: run_append s1_def s2_def s3_def)
  have best: "best_form_this_squat s2 \<longleftrightarrow> (\<exists>m \<in> set ms. lower_body_perfect m)"
    using a b by simp
  have low: "lowest_knee_angle_this_squat s2 = Min (avg_knee_angle ` set (m0 # ms))"
    using a b by simp
  have att: "total_attempts s2 = total_attempts s0" "correct_squats s2 = correct_squats s0"
    "missed_squats s2 = missed_squats s0"
    using a b by simp_all
  show ?thesis
    unfolding Let_def r ms_def [symmetric] using c by (simp add: best low att)
qed

text \<open>
  The amended C1 on a repetition of three frames: deep, then a frame whose depth ratio is
  the threshold itself, then standing.
\<close>

theorem perfect_classification_witness:
  "was_standing init \<and>
   frame_measures deep_frame =
     Some \<lparr>avg_knee_angle = 90, avg_hip_angle = 90, back_lean = 180, depth_ratio = 1\<rparr> \<and>
   frame_measures threshold_frame =
     Some \<lparr>avg_knee_angle = 90, avg_hip_angle = 90, back_lean = 90,
           depth_ratio = 7656119366529843 / 9007199254740992\<rparr> \<and>
   frame_measures standing_frame =
     Some \<lparr>avg_knee_angle = 180, avg_hip_angle = 180, back_lean = 180, depth_ratio = 1 / 2\<rparr> \<and>
   squat_just_completed (run [deep_frame, threshold_frame, standing_frame] init) \<and>
   total_attempts (run [deep_frame, threshold_frame, standing_frame] init) = 1 \<and>
   last_squat_was_perfect (run [deep_frame, threshold_frame, standing_frame] init) \<and>
   correct_squats (run [deep_frame, threshold_frame, standing_frame] init) = 1 \<and>
   missed_squats (run [deep_frame, threshold_frame, standing_frame] init) = 0"
  using perfect_classification [of init deep_frame
      "\<lparr>avg_knee_angle = 90, avg_hip_angle = 90, back_lean = 180, depth_ratio = 1\<rparr>"
      "[threshold_frame]" standing_frame
      "\<lparr>avg_knee_angle = 180, avg_hip_angle = 180, back_lean = 180, depth_ratio = 1 / 2\<rparr>"]
  by (simp add: frame_measures_deep frame_measures_threshold frame_measures_standing init_def
      lower_body_perfect_def knees_good_def hips_good_def depth_good_def Let_def)

subsection \<open>C2: the feedback inside a repetition\<close>

text \<open>
  C2, as the spec states it, fails in two ways. It puts the label Hips first whenever
  \<open>hips_good \<and> depth_good\<close> fails, but line 260 passes the hip-angle check alone to
  \<^verbatim>\<open>_generate_feedback\<close> (only the checkpoints of line 259 get the conjunction): on
  a frame with knee angle 90, hip angle 90 and depth ratio 0, inside a repetition before
  and after the call, the feedback is \<open>Fix: Depth\<close>, not \<open>Fix: Hips, Depth\<close>, while
  both hip checkpoints are flagged. And the flag that line 260 passes is the one the
  state machine has just written: the standing frame that completes a repetition is
  processed inside it, is not in perfect form, and gets \<open>Ready to squat\<close>.
\<close>

theorem feedback_without_hips_label:
  "frame_measures high_hip_frame =
     Some \<lparr>avg_knee_angle = 90, avg_hip_angle = 90, back_lean = 90, depth_ratio = 0\<rparr> \<and>
   hips_good \<lparr>avg_knee_angle = 90, avg_hip_angle = 90, back_lean = 90, depth_ratio = 0\<rparr> \<and>
   \<not> depth_good \<lparr>avg_knee_angle = 90, avg_hip_angle = 90, back_lean = 90, depth_ratio = 0\<rparr> \<and>
   \<not> lower_body_perfect \<lparr>avg_knee_angle = 90, avg_hip_angle = 90, back_lean = 90, depth_ratio = 0\<rparr> \<and>
   is_currently_squatting (run [high_hip_frame] init) \<and>
   is_currently_squatting (run [high_hip_frame, high_hip_frame] init) \<and>
   fst (detect_squat high_hip_frame (run [high_hip_frame] init)) =
     Inr \<lparr>is_squat_position = False, knee_angle = 90, hip_angle = 90, back_angle = 90,
          hip_depth = 0, form_feedback = ''Fix: Depth'',
          checkpoint_results = [(11, True), (12, True), (23, True), (24, True),
            (25, False), (26, False), (27, True), (28, True)]\<rparr> \<and>
   ''Fix: '' @ join '', '' (take 2 (spec_issues
      \<lparr>avg_knee_angle = 90, avg_hip_angle = 90, back_lean = 90, depth_ratio = 0\<rparr>)) =
     ''Fix: Hips, Depth'' \<and>
   frame_measures standing_frame =
     Some \<lparr>avg_knee_angle = 180, avg_hip_angle = 180, back_lean = 180, depth_ratio = 1 / 2\<rparr> \<and>
   \<not> lower_body_perfect
     \<lparr>avg_knee_angle = 180, avg_hip_angle = 180, back_lean = 180, depth_ratio = 1 / 2\<rparr> \<and>
   \<not> is_currently_squatting (run [high_hip_frame, standing_frame] init) \<and>
   fst (detect_squat standing_frame (run [high_hip_frame] init)) =
     Inr \<lparr>is_squat_position = False, knee_angle = 180, hip_angle = 180, back_angle = 180,
          hip_depth = 1 / 2, form_feedback = ''Ready to squat'',
          checkpoint_results = [(11, True), (12, True), (23, True), (24, True),
            (25, True), (26, True), (27, True), (28, True)]\<rparr>"
  by (simp add: frame_measures_high_hip frame_measures_standing step_eval init_def
      spec_issues_def)

text \<open>
  C2, amended. For every valid frame after which the detector is inside a repetition
  (\<open>is_currently_squatting\<close> holds once the state machine has run: the frame that
  starts a repetition is in, the frame that completes one is out) and whose
  \<open>lower_body_perfect\<close> is false, the call returns an analysis whose feedback is
  \<open>Fix: \<close> followed by the first two labels, joined by a comma and a space, of the
  list built in this order: Hips when the hip angle is out of its range, Knees when the
  knee angle is out of its range, Depth when the depth ratio is below the threshold.
  With the hip angle in range and the depth too low the list has Depth and no Hips.
\<close>

theorem feedback_issue_list:
  assumes "frame_measures f = Some m"
      and "is_currently_squatting (snd (detect_squat f s))"
      and "\<not> lower_body_perfect m"
  shows "\<exists>a. fst (detect_squat f s) = Inr a \<and>
     form_feedback a = ''Fix: '' @ join '', '' (take 2
       ((if \<not> hips_good m then [''Hips''] else []) @
        (if \<not> knees_good m then [''Knees''] else []) @
        (if \<not> depth_good m then [''Depth''] else []))) \<and>
     (hips_good m \<and> \<not> depth_good m \<longrightarrow>
        form_feedback a = (if knees_good m then ''Fix: Depth'' else ''Fix: Knees, Depth''))"
proof -
  let ?s1 = "s\<lparr>frame_count := frame_count s + 1\<rparr>"
  have sq: "is_currently_squatting (snd (process_angles m ?s1))"
    using assms(2) by (simp add: detect_squat_valid [OF assms(1)])
  have fb: "form_feedback (fst (process_angles m ?s1)) =
     generate_feedback False (back_good m) (hips_good m) (knees_good m) (depth_good m) True"
    using fst_process_angles [of m ?s1] sq assms(3) by simp
  have "fst (detect_squat f s) = Inr (fst (process_angles m ?s1))"
    by (simp add: detect_squat_valid [OF assms(1)])
  moreover have "\<not> hips_good m \<or> \<not> knees_good m \<or> \<not> depth_good m"
    using assms(3) by (auto simp add: lower_body_perfect_def)
  ultimately show ?thesis
    by (auto simp add: fb generate_feedback_def Let_def)
qed

text \<open>The amended C2 on the frame of the counterexample.\<close>

theorem feedback_issue_list_witness:
  "frame_measures high_hip_frame =
     Some \<lparr>avg_knee_angle = 90, avg_hip_angle = 90, back_lean = 90, depth_ratio = 0\<rparr> \<and>
   is_currently_squatting (snd (detect_squat high_hip_frame (run [high_hip_frame] init))) \<and>
   \<not> lower_body_perfect
     \<lparr>avg_knee_angle = 90, avg_hip_angle = 90, back_lean = 90, depth_ratio = 0\<rparr> \<and>
   map_sum id form_feedback (fst (detect_squat high_hip_frame (run [high_hip_frame] init))) =
     Inr ''Fix: Depth''"
  using feedback_issue_list [of high_hip_frame
      "\<lparr>avg_knee_angle = 90, avg_hip_angle = 90, back_lean = 90, depth_ratio = 0\<rparr>"
      "run [high_hip_frame] init"]
  by (simp add: frame_measures_high_hip step_eval init_def)

subsection \<open>C3: the band between the thresholds\<close>

text \<open>
  C3. Over any sequence of valid frames whose average knee angle stays in [120, 130),
  fed to a detector in any state (the initial standing state among them), no start and
  no completion fires: \<open>was_standing\<close>, \<open>is_currently_squatting\<close> and the completion
  flag are unchanged, and so are \<open>total_attempts\<close>, \<open>correct_squats\<close>,
  \<open>missed_squats\<close>, \<open>squat_count\<close> and the four lifetime frame accumulators.
\<close>

theorem hysteresis_stability:
  assumes "\<forall>f \<in> set fs. \<exists>m. frame_measures f = Some m \<and>
             120 \<le> avg_knee_angle m \<and> avg_knee_angle m < 130"
  shows "let s' = run fs s in
     was_standing s' = was_standing s \<and>
     is_currently_squatting s' = is_currently_squatting s \<and>
     squat_just_completed s' = squat_just_completed s \<and>
     total_attempts s' = total_attempts s \<and>
     correct_squats s' = correct_squats s \<and>
     missed_squats s' = missed_squats s \<and>
     squat_count s' = squat_count s \<and>
     knee_correct_frames s' = knee_correct_frames s \<and>
     hip_correct_frames s' = hip_correct_frames s \<and>
     back_correct_frames s' = back_correct_frames s \<and>
     total_frames_in_correct_squats s' = total_frames_in_correct_squats s"
  using assms
proof (induction fs arbitrary: s)
  case Nil
  then show ?case by simp
next
  case (Cons f fs)
  from Cons.prems obtain m where m: "frame_measures f = Some m"
    "120 \<le> avg_knee_angle m" "avg_knee_angle m < 130"
    by auto
  have nc: "\<not> (\<not> was_standing s \<and> is_currently_squatting s \<and> 130 \<le> avg_knee_angle m)"
    using m(3) by simp
  have rest: "\<forall>f \<in> set fs. \<exists>m. frame_measures f = Some m \<and>
             120 \<le> avg_knee_angle m \<and> avg_knee_angle m < 130"
    using Cons.prems by simp
  show ?case
    using Cons.IH [OF rest, of "snd (detect_squat f s)"] band_step [OF m, of s]
      other_step [OF m(1) nc]
    by (simp add: Let_def)
qed

text \<open>C3 on two frames with knee angle 120, from the initial state and from inside a repetition.\<close>

theorem hysteresis_stability_witness:
  "frame_measures band_frame =
     Some \<lparr>avg_knee_angle = 120, avg_hip_angle = 180, back_lean = 180, depth_ratio = 1 / 2\<rparr> \<and>
   was_standing (run [band_frame, band_frame] init) \<and>
   \<not> is_currently_squatting (run [band_frame, band_frame] init) \<and>
   total_attempts (run [band_frame, band_frame] init) = 0 \<and>
   \<not> was_standing (run [deep_frame, band_frame, band_frame] init) \<and>
   is_currently_squatting (run [deep_frame, band_frame, band_frame] init) \<and>
   total_attempts (run [deep_frame, band_frame, band_frame] init) = 0"
  using hysteresis_stability [of "[band_frame, band_frame]" init]
    hysteresis_stability [of "[band_frame, band_frame]" "run [deep_frame] init"]
  by (simp add: frame_measures_band frame_measures_deep step_eval init_def)

subsection \<open>C4: the two flags are never both set\<close>

text \<open>
  C4. \<open>was_standing\<close> and \<open>is_currently_squatting\<close> are not both true in the state
  that construction produces, nor after a reset; every call of \<open>detect_squat\<close>, on any
  frame, preserves this; so no reachable state of a detector has both flags set.
\<close>

theorem flags_exclusive:
  "\<not> (was_standing init \<and> is_currently_squatting init) \<and>
   \<not> (was_standing (reset_squat_count s0) \<and> is_currently_squatting (reset_squat_count s0)) \<and>
   (\<not> (was_standing s \<and> is_currently_squatting s) \<longrightarrow>
    \<not> (was_standing (snd (detect_squat f s)) \<and> is_currently_squatting (snd (detect_squat f s)))) \<and>
   (reachable r \<longrightarrow> \<not> (was_standing r \<and> is_currently_squatting r))"
proof -
  have "\<not> (was_standing r \<and> is_currently_squatting r)" if "reachable r"
    using that
  proof (induction rule: reachable.induct)
    case (reach_detect s f)
    from reach_detect.IH show ?case by (rule flags_step)
  qed (simp_all add: other_methods init_def reset_squat_count_def)
  then show ?thesis
    using flags_step [of s f] by (simp add: init_def reset_squat_count_def)
qed

text \<open>C4 on the state after a deep frame and on the one after the standing frame that follows.\<close>

theorem flags_exclusive_witness:
  "was_standing init \<and> \<not> is_currently_squatting init \<and>
   reachable (snd (detect_squat deep_frame init)) \<and>
   is_currently_squatting (snd (detect_squat deep_frame init)) \<and>
   \<not> was_standing (snd (detect_squat deep_frame init)) \<and>
   was_standing (snd (detect_squat standing_frame (snd (detect_squat deep_frame init)))) \<and>
   \<not> is_currently_squatting
      (snd (detect_squat standing_frame (snd (detect_squat deep_frame init))))"
  using flags_exclusive [of init "snd (detect_squat deep_frame init)" standing_frame
      "snd (detect_squat deep_frame init)"]
    reach_detect [OF reach_init, of deep_frame]
  by (simp add: frame_measures_deep frame_measures_standing step_eval init_def)

subsection \<open>C5: a missing or short frame\<close>

text \<open>
  C5. On a frame that is missing or has fewer than 33 landmarks (the empty list among
  them), \<open>detect_squat\<close> does not raise, returns the analysis with all four numeric
  fields 0, no checkpoints and the message \<open>No pose detected\<close>, and changes nothing
  in the state but the frame counter, which grows by 1.
\<close>

theorem invalid_frame:
  assumes "f = None \<or> (\<exists>lms. f = Some lms \<and> length lms < 33)"
  shows "detect_squat f s =
     (Inr \<lparr>is_squat_position = False, knee_angle = 0, hip_angle = 0, back_angle = 0,
           hip_depth = 0, form_feedback = ''No pose detected'', checkpoint_results = []\<rparr>,
      s\<lparr>frame_count := frame_count s + 1\<rparr>)"
  using assms by (auto simp: detect_squat_def get_empty_analysis_def Let_def)

text \<open>C5 on the missing frame and on a frame of 32 landmarks.\<close>

theorem invalid_frame_witness:
  "detect_squat None init =
     (Inr \<lparr>is_squat_position = False, knee_angle = 0, hip_angle = 0, back_angle = 0,
           hip_depth = 0, form_feedback = ''No pose detected'', checkpoint_results = []\<rparr>,
      init\<lparr>frame_count := 1\<rparr>) \<and>
   length (replicate 32 (point 0 0)) < 33 \<and>
   detect_squat (Some (replicate 32 (point 0 0))) init =
     (Inr \<lparr>is_squat_position = False, knee_angle = 0, hip_angle = 0, back_angle = 0,
           hip_depth = 0, form_feedback = ''No pose detected'', checkpoint_results = []\<rparr>,
      init\<lparr>frame_count := 1\<rparr>)"
  using invalid_frame [of None init] invalid_frame [of "Some (replicate 32 (point 0 0))" init]
  by (simp add: init_def)

subsection \<open>C6: the lifetime frame accumulators\<close>

text \<open>
  C6. On every call of \<open>detect_squat\<close>, the four lifetime accumulators change only when
  the call completes a repetition that is classified perfect, and then each grows by
  exactly the transient counter of that repetition; on an imperfect completion and on
  every other frame (valid or not) all four are unchanged. Over a whole repetition
  (as in C1) a perfect one adds exactly the number of tracked frames (the valid frames
  after the start frame, the completing one included) that met the criterion, and an
  imperfect one adds nothing.
\<close>

theorem accumulation_isolation:
  "(let s' = snd (detect_squat f s);
        completes = (\<exists>m. frame_measures f = Some m \<and> 130 \<le> avg_knee_angle m \<and>
                         \<not> was_standing s \<and> is_currently_squatting s)
    in if completes \<and> last_squat_was_perfect s' then
         knee_correct_frames s' = knee_correct_frames s + current_squat_knee_frames s' \<and>
         hip_correct_frames s' = hip_correct_frames s + current_squat_hip_frames s' \<and>
         back_correct_frames s' = back_correct_frames s + current_squat_back_frames s' \<and>
         total_frames_in_correct_squats s' =
           total_frames_in_correct_squats s + current_squat_total_frames s'
       else
         knee_correct_frames s' = knee_correct_frames s \<and>
         hip_correct_frames s' = hip_correct_frames s \<and>
         back_correct_frames s' = back_correct_frames s \<and>
         total_frames_in_correct_squats s' = total_frames_in_correct_squats s) \<and>
   (was_standing s0 \<and> frame_measures f0 = Some m0 \<and> avg_knee_angle m0 < 120 \<and>
    (\<forall>f \<in> set fs. \<forall>m. frame_measures f = Some m \<longrightarrow> avg_knee_angle m < 130) \<and>
    frame_measures fc = Some mc \<and> 130 \<le> avg_knee_angle mc \<longrightarrow>
    (let s' = run (f0 # fs @ [fc]) s0;
         tracked = List.map_filter frame_measures fs @ [mc];
         n = (\<lambda>good. if last_squat_was_perfect s' then int (length (filter good tracked)) else 0)
     in knee_correct_frames s' = knee_correct_frames s0 + n knees_good \<and>
        hip_correct_frames s' =
          hip_correct_frames s0 + n (\<lambda>m. hips_good m \<and> depth_good m) \<and>
        back_correct_frames s' = back_correct_frames s0 + n back_good \<and>
        total_frames_in_correct_squats s' =
          total_frames_in_correct_squats s0 + n (\<lambda>m. True)))"
proof (rule conjI)
  show "let s' = snd (detect_squat f s);
        completes = (\<exists>m. frame_measures f = Some m \<and> 130 \<le> avg_knee_angle m \<and>
                         \<not> was_standing s \<and> is_currently_squatting s)
    in if completes \<and> last_squat_was_perfect s' then
         knee_correct_frames s' = knee_correct_frames s + current_squat_knee_frames s' \<and>
         hip_correct_frames s' = hip_correct_frames s + current_squat_hip_frames s' \<and>
         back_correct_frames s' = back_correct_frames s + current_squat_back_frames s' \<and>
         total_frames_in_correct_squats s' =
           total_frames_in_correct_squats s + current_squat_total_frames s'
       else
         knee_correct_frames s' = knee_correct_frames s \<and>
         hip_correct_frames s' = hip_correct_frames s \<and>
         back_correct_frames s' = back_correct_frames s \<and>
         total_frames_in_correct_squats s' = total_frames_in_correct_squats s"
  proof (cases "frame_measures f")
    case None
    then show ?thesis by (simp add: detect_squat_invalid)
  next
    case (Some m)
    show ?thesis
    proof (cases "\<not> was_standing s \<and> is_currently_squatting s \<and> 130 \<le> avg_knee_angle m")
      case True
      then have c: "\<not> was_standing s" "is_currently_squatting s" "130 \<le> avg_knee_angle m"
        by simp_all
      note st = complete_step [OF c(1,2) Some c(3), unfolded Let_def]
      show ?thesis unfolding Let_def using st Some c by simp
    next
      case False
      note st = other_step [OF Some False, unfolded Let_def]
      show ?thesis unfolding Let_def using st Some False by auto
    qed
  qed
next
  show "was_standing s0 \<and> frame_measures f0 = Some m0 \<and> avg_knee_angle m0 < 120 \<and>
    (\<forall>f \<in> set fs. \<forall>m. frame_measures f = Some m \<longrightarrow> avg_knee_angle m < 130) \<and>
    frame_measures fc = Some mc \<and> 130 \<le> avg_knee_angle mc \<longrightarrow>
    (let s' = run (f0 # fs @ [fc]) s0;
         tracked = List.map_filter frame_measures fs @ [mc];
         n = (\<lambda>good. if last_squat_was_perfect s' then int (length (filter good tracked)) else 0)
     in knee_correct_frames s' = knee_correct_frames s0 + n knees_good \<and>
        hip_correct_frames s' =
          hip_correct_frames s0 + n (\<lambda>m. hips_good m \<and> depth_good m) \<and>
        back_correct_frames s' = back_correct_frames s0 + n back_good \<and>
        total_frames_in_correct_squats s' =
          total_frames_in_correct_squats s0 + n (\<lambda>m. True))"
  proof (intro impI, elim conjE)
    assume h: "was_standing s0" "frame_measures f0 = Some m0" "avg_knee_angle m0 < 120"
      "\<forall>f \<in> set fs. \<forall>m. frame_measures f = Some m \<longrightarrow> avg_knee_angle m < 130"
      "frame_measures fc = Some mc" "130 \<le> avg_knee_angle mc"
    define s1 where "s1 = snd (detect_squat f0 s0)"
    define s2 where "s2 = run fs s1"
    define s3 where "s3 = snd (detect_squat fc s2)"
    define ms where "ms = List.map_filter frame_measures fs"
    note a = start_step [OF h(1,2,3), unfolded Let_def, folded s1_def]
    have 1: "\<not> was_standing s1" "is_currently_squatting s1" using a by simp_all
    note b = inside_run [OF 1 h(4), unfolded Let_def, folded s2_def ms_def]
    have 2: "\<not> was_standing s2" "is_currently_squatting s2" using b by simp_all
    note c = complete_step [OF 2 h(5,6), unfolded Let_def, folded s3_def]
    have r: "run (f0 # fs @ [fc]) s0 = s3"
      by (simp add: run_append s1_def s2_def s3_def)
    have ng: "\<not> knees_good mc" using h(6) by (simp add: knees_good_def)
    have cur: "current_squat_total_frames s2 = int (length ms)"
      "current_squat_knee_frames s2 = int (length (filter knees_good ms))"
      "current_squat_hip_frames s2 = int (length (filter (\<lambda>m. hips_good m \<and> depth_good m) ms))"
      "current_squat_back_frames s2 = int (length (filter back_good ms))"
      using a b by simp_all
    have life: "knee_correct_frames s2 = knee_correct_frames s0"
      "hip_correct_frames s2 = hip_correct_frames s0"
      "back_correct_frames s2 = back_correct_frames s0"
      "total_frames_in_correct_squats s2 = total_frames_in_correct_squats s0"
      using a b by simp_all
    show "let s' = run (f0 # fs @ [fc]) s0;
         tracked = List.map_filter frame_measures fs @ [mc];
         n = (\<lambda>good. if last_squat_was_perfect s' then int (length (filter good tracked)) else 0)
     in knee_correct_frames s' = knee_correct_frames s0 + n knees_good \<and>
        hip_correct_frames s' =
          hip_correct_frames s0 + n (\<lambda>m. hips_good m \<and> depth_good m) \<and>
        back_correct_frames s' = back_correct_frames s0 + n back_good \<and>
        total_frames_in_correct_squats s' =
          total_frames_in_correct_squats s0 + n (\<lambda>m. True)"
      unfolding Let_def r ms_def [symmetric] using c ng by (simp add: cur life)
  qed
qed

text \<open>
  C6 on the perfect repetition deep, threshold, standing: two tracked frames, one of them
  good at the knees and at the hips (its depth ratio is the threshold itself).
\<close>

theorem accumulation_isolation_witness:
  "frame_measures standing_frame =
     Some \<lparr>avg_knee_angle = 180, avg_hip_angle = 180, back_lean = 180, depth_ratio = 1 / 2\<rparr> \<and>
   \<not> was_standing (run [deep_frame, threshold_frame] init) \<and>
   is_currently_squatting (run [deep_frame, threshold_frame] init) \<and>
   last_squat_was_perfect (run [deep_frame, threshold_frame, standing_frame] init) \<and>
   knee_correct_frames (run [deep_frame, threshold_frame, standing_frame] init) = 1 \<and>
   hip_correct_frames (run [deep_frame, threshold_frame, standing_frame] init) = 1 \<and>
   back_correct_frames (run [deep_frame, threshold_frame, standing_frame] init) = 0 \<and>
   total_frames_in_correct_squats (run [deep_frame, threshold_frame, standing_frame] init) = 2"
  using accumulation_isolation [of standing_frame "run [deep_frame, threshold_frame] init" init
      deep_frame
      "\<lparr>avg_knee_angle = 90, avg_hip_angle = 90, back_lean = 180, depth_ratio = 1\<rparr>"
      "[threshold_frame]" standing_frame
      "\<lparr>avg_knee_angle = 180, avg_hip_angle = 180, back_lean = 180, depth_ratio = 1 / 2\<rparr>"]
  by (simp add: frame_measures_deep frame_measures_threshold frame_measures_standing
      step_eval init_def)

subsection \<open>C7: the completion flag is read once\<close>

text \<open>
  C7. \<open>has_squat_just_completed\<close> returns the completion flag and clears it, changing
  no other field; a second call in a row returns false; and after a frame that
  completes a repetition the first call returns true and the second false.
\<close>

theorem completion_one_shot:
  "has_squat_just_completed s = (squat_just_completed s, s\<lparr>squat_just_completed := False\<rparr>) \<and>
   \<not> fst (has_squat_just_completed (snd (has_squat_just_completed s))) \<and>
   (frame_measures f = Some m \<and> 130 \<le> avg_knee_angle m \<and>
    \<not> was_standing s \<and> is_currently_squatting s \<longrightarrow>
    (let s1 = snd (detect_squat f s);
         (first, s2) = has_squat_just_completed s1;
         (second, s3) = has_squat_just_completed s2
     in first \<and> \<not> second \<and> s3 = s1\<lparr>squat_just_completed := False\<rparr>))"
proof -
  have "squat_just_completed (snd (detect_squat f s))"
    if "frame_measures f = Some m" "130 \<le> avg_knee_angle m"
      "\<not> was_standing s" "is_currently_squatting s"
    using complete_step [OF that(3,4,1,2)] by (simp add: Let_def)
  then show ?thesis
    by (auto simp add: has_squat_just_completed_def Let_def)
qed

text \<open>C7 on the repetition deep, standing.\<close>

theorem completion_one_shot_witness:
  "frame_measures standing_frame =
     Some \<lparr>avg_knee_angle = 180, avg_hip_angle = 180, back_lean = 180, depth_ratio = 1 / 2\<rparr> \<and>
   \<not> was_standing (run [deep_frame] init) \<and> is_currently_squatting (run [deep_frame] init) \<and>
   fst (has_squat_just_completed (run [deep_frame, standing_frame] init)) \<and>
   \<not> fst (has_squat_just_completed (snd (has_squat_just_completed
      (run [deep_frame, standing_frame] init))))"
  using completion_one_shot [of "run [deep_frame] init" standing_frame
      "\<lparr>avg_knee_angle = 180, avg_hip_angle = 180, back_lean = 180, depth_ratio = 1 / 2\<rparr>"]
  by (simp add: frame_measures_deep frame_measures_standing step_eval init_def
      has_squat_just_completed_def)

subsection \<open>C8: the accuracy percentages\<close>

text \<open>
  C8. \<open>get_feedback_data\<close> reports each of the three percentages as the floor of
  100 times the good frames over \<open>total_frames_in_correct_squats\<close>, and as 0 when that
  total is 0 (the total is never negative in a reachable state, see
  \<open>reachable_frames_nonneg\<close>); 80 good knee frames out of 120 give 66. The call leaves
  the state as it is.
\<close>

theorem percentage_formula:
  "(let t = total_frames_in_correct_squats s;
        d = fst (get_feedback_data s);
        pct = (\<lambda>good. if t = 0 then 0 else \<lfloor>100 * real_of_int good / real_of_int t\<rfloor>)
    in (0 \<le> t \<longrightarrow>
          map_of d ''kneePercentage'' = Some (pct (knee_correct_frames s)) \<and>
          map_of d ''hipPercentage'' = Some (pct (hip_correct_frames s)) \<and>
          map_of d ''backPercentage'' = Some (pct (back_correct_frames s))) \<and>
       (knee_correct_frames s = 80 \<and> t = 120 \<longrightarrow> map_of d ''kneePercentage'' = Some 66)) \<and>
   snd (get_feedback_data s) = s"
proof -
  have fl: "\<lfloor>100 * real_of_int k / real_of_int t\<rfloor> = k * 100 div t" for k t :: int
    using floor_divide_of_int_eq [of "k * 100" t, where ?'a = real]
    by (simp add: mult.commute)
  show ?thesis
    by (auto simp add: get_feedback_data_def Let_def fl)
qed

text \<open>C8 on 80, 119 and 0 good frames out of 120, and on the initial state.\<close>

theorem percentage_formula_witness:
  "map_of (fst (get_feedback_data
      (init\<lparr>knee_correct_frames := 80, hip_correct_frames := 119, back_correct_frames := 0,
             total_frames_in_correct_squats := 120\<rparr>))) ''kneePercentage'' = Some 66 \<and>
   map_of (fst (get_feedback_data
      (init\<lparr>knee_correct_frames := 80, hip_correct_frames := 119, back_correct_frames := 0,
             total_frames_in_correct_squats := 120\<rparr>))) ''hipPercentage'' = Some 99 \<and>
   map_of (fst (get_feedback_data init)) ''kneePercentage'' = Some 0"
  using percentage_formula [of "init\<lparr>knee_correct_frames := 80, hip_correct_frames := 119,
      back_correct_frames := 0, total_frames_in_correct_squats := 120\<rparr>"]
    percentage_formula [of init]
  by (simp add: init_def Let_def)

subsection \<open>C9: the angle at a vertex\<close>

text \<open>
  C9. On three landmarks that carry their coordinates, \<open>calculate_angle\<close> returns an
  angle between 0 and 180; it is 180 when the vertex lies strictly between the two
  other points on a line, and 0 when the three points coincide.
\<close>

theorem calculate_angle_range:
  assumes "a ''x'' = Some ax" "a ''y'' = Some ay"
      and "v ''x'' = Some vx" "v ''y'' = Some vy"
      and "c ''x'' = Some cx" "c ''y'' = Some cy"
  shows "\<exists>angle. calculate_angle a v c = Some angle \<and> 0 \<le> angle \<and> angle \<le> 180 \<and>
     ((\<exists>u. 0 < u \<and> u < 1 \<and> (ax \<noteq> cx \<or> ay \<noteq> cy) \<and>
           vx = ax + u * (cx - ax) \<and> vy = ay + u * (cy - ay)) \<longrightarrow> angle = 180) \<and>
     (ax = vx \<and> ay = vy \<and> cx = vx \<and> cy = vy \<longrightarrow> angle = 0)"
proof -
  define r where "r = atan2 (cy - vy) (cx - vx) - atan2 (ay - vy) (ax - vx)"
  define d where "d = (if degrees r < 0 then degrees r + 360 else degrees r)"
  define angle where "angle = (if d > 180 then 360 - d else d)"
  have ca: "calculate_angle a v c = Some angle"
    using assms by (simp add: calculate_angle_def Let_def angle_def d_def r_def)
  have "- (2 * pi) < r" "r < 2 * pi"
    using atan2_range [of "cy - vy" "cx - vx"] atan2_range [of "ay - vy" "ax - vx"]
    by (simp_all add: r_def)
  then have "- 360 < degrees r" "degrees r < 360" by (rule degrees_bounds)+
  then have rng: "0 \<le> angle" "angle \<le> 180"
    by (auto simp add: angle_def d_def)
  have col: "angle = 180"
    if u: "0 < u" "u < 1" "ax \<noteq> cx \<or> ay \<noteq> cy"
      "vx = ax + u * (cx - ax)" "vy = ay + u * (cy - ay)" for u
  proof -
    have 1: "cy - vy = (1 - u) * (cy - ay)" "cx - vx = (1 - u) * (cx - ax)"
      using u(4,5) by (simp_all add: algebra_simps)
    have 2: "ay - vy = u * (- (cy - ay))" "ax - vx = u * (- (cx - ax))"
      using u(4,5) by (simp_all add: algebra_simps)
    have "r = atan2 (cy - ay) (cx - ax) - atan2 (- (cy - ay)) (- (cx - ax))"
      unfolding r_def 1 2 using u(1,2) by (simp only: atan2_scale diff_gt_0_iff_gt)
    moreover have "cx - ax \<noteq> 0 \<or> cy - ay \<noteq> 0" using u(3) by auto
    ultimately have "\<bar>r\<bar> = pi"
      using atan2_opposite [of "cx - ax" "cy - ay"] by simp
    then have "r = pi \<or> r = - pi" by linarith
    then show ?thesis
      by (auto simp add: angle_def d_def degrees_def)
  qed
  have coin: "angle = 0" if "ax = vx" "ay = vy" "cx = vx" "cy = vy"
    using that by (simp add: angle_def d_def r_def degrees_def)
  show ?thesis
    using ca rng col coin by blast
qed

text \<open>C9 on the points (0,0), (1,0), (2,0) and on three copies of (1,1).\<close>

theorem calculate_angle_range_witness:
  "calculate_angle (point 0 0) (point 1 0) (point 2 0) = Some 180 \<and>
   calculate_angle (point 1 1) (point 1 1) (point 1 1) = Some 0"
proof -
  have between: "\<exists>u::real. 0 < u \<and> u < 1 \<and> ((0::real) \<noteq> 2 \<or> (0::real) \<noteq> 0) \<and>
      (1::real) = 0 + u * (2 - 0) \<and> (0::real) = 0 + u * (0 - 0)"
    by (rule exI [of _ "1 / 2"]) simp
  show ?thesis
    using calculate_angle_range [of "point 0 0" 0 0 "point 1 0" 1 0 "point 2 0" 2 0]
      calculate_angle_range [of "point 1 1" 1 1 "point 1 1" 1 1 "point 1 1" 1 1] between
    by (auto simp add: point_xy)
qed

subsection \<open>C10: the counters agree\<close>

text \<open>
  C10. In every reachable state \<open>total_attempts = correct_squats + missed_squats\<close> and
  \<open>squat_count = correct_squats\<close>; so the total that \<open>get_feedback_data\<close> reports is
  the sum of its correct and missed entries, and \<open>get_squat_count\<close> returns the number
  of perfect repetitions.
\<close>

theorem counters_agree:
  assumes "reachable s"
  shows "total_attempts s = correct_squats s + missed_squats s \<and>
         squat_count s = correct_squats s \<and>
         map_of (fst (get_feedback_data s)) ''total'' = Some (correct_squats s + missed_squats s) \<and>
         map_of (fst (get_feedback_data s)) ''correct'' = Some (correct_squats s) \<and>
         map_of (fst (get_feedback_data s)) ''missed'' = Some (missed_squats s) \<and>
         fst (get_squat_count s) = correct_squats s"
proof -
  have "total_attempts s = correct_squats s + missed_squats s \<and> squat_count s = correct_squats s"
    using assms
  proof (induction rule: reachable.induct)
    case (reach_detect s f)
    then show ?case using counts_step [of s f] by simp
  qed (simp_all add: other_methods init_def reset_squat_count_def)
  then show ?thesis
    by (simp add: get_feedback_data_def get_squat_count_def Let_def)
qed

text \<open>C10 on the state after the perfect repetition deep, deep, standing.\<close>

theorem counters_agree_witness:
  "reachable (run [deep_frame, deep_frame, standing_frame] init) \<and>
   total_attempts (run [deep_frame, deep_frame, standing_frame] init) = 1 \<and>
   correct_squats (run [deep_frame, deep_frame, standing_frame] init) = 1 \<and>
   missed_squats (run [deep_frame, deep_frame, standing_frame] init) = 0 \<and>
   squat_count (run [deep_frame, deep_frame, standing_frame] init) = 1"
proof -
  have r: "reachable (run [deep_frame, deep_frame, standing_frame] init)"
    using reach_detect [OF reach_detect [OF reach_detect [OF reach_init, of deep_frame],
      of deep_frame], of standing_frame]
    by simp
  have "correct_squats (run [deep_frame, deep_frame, standing_frame] init) = 1"
    "missed_squats (run [deep_frame, deep_frame, standing_frame] init) = 0"
    by (simp_all add: frame_measures_deep frame_measures_standing step_eval init_def)
  with r counters_agree [OF r] show ?thesis by simp
qed

end
